theory Spec2Isabelle
  imports Main "HOL-Library.Sublist"
begin

section \<open>Python values and exceptions\<close>

text \<open>
  The action handler in \<^verbatim>\<open>new_file_action.py\<close> tests Python objects for truthiness
  (\<^verbatim>\<open>entity or project\<close>, \<^verbatim>\<open>if not reset_current_scene(...)\<close>). A value is
  \<^verbatim>\<open>None\<close>, a boolean, a number, a string or a dictionary (the toolkit's entity
  dictionaries such as \<^verbatim>\<open>{"type": "Shot", "id": "12"}\<close>); \<open>truthy\<close> is Python's
  \<^verbatim>\<open>bool(v)\<close>.
\<close>

datatype pyval =
    PyNone
  | PyBool bool
  | PyInt int
  | PyStr string
  | PyDict "(string \<times> string) list"

fun truthy :: "pyval \<Rightarrow> bool" where
  "truthy PyNone = False"
| "truthy (PyBool b) = b"
| "truthy (PyInt n) = (n \<noteq> 0)"
| "truthy (PyStr s) = (s \<noteq> [])"
| "truthy (PyDict kvs) = (kvs \<noteq> [])"

text \<open>
  \<^verbatim>\<open>x or y\<close> and \<^verbatim>\<open>x and y\<close> return one of their operands, not a boolean.
\<close>

definition py_or :: "pyval \<Rightarrow> pyval \<Rightarrow> pyval" where
  "py_or x y = (if truthy x then x else y)"

definition py_and :: "pyval \<Rightarrow> pyval \<Rightarrow> pyval" where
  "py_and x y = (if truthy x then y else x)"

text \<open>
  The handler distinguishes three tiers of the exception hierarchy:
  \<^verbatim>\<open>except TankError\<close> (line 73), \<^verbatim>\<open>except Exception\<close> (line 103) and the bare
  \<^verbatim>\<open>except:\<close> (line 128). \<open>TankError_class\<close> stands for \<^verbatim>\<open>TankError\<close> and its
  subclasses, \<open>Exception_class\<close> for every other class derived from \<^verbatim>\<open>Exception\<close>,
  and \<open>BaseException_class\<close> for the classes derived from \<^verbatim>\<open>BaseException\<close> only
  (\<^verbatim>\<open>KeyboardInterrupt\<close>, \<^verbatim>\<open>SystemExit\<close>, \<^verbatim>\<open>GeneratorExit\<close>). An exception
  carries the text that \<^verbatim>\<open>str(e)\<close> gives.
\<close>

datatype exn_class = TankError_class | Exception_class | BaseException_class

datatype pyexn = PyExn exn_class string

fun str_exn :: "pyexn \<Rightarrow> string" where
  "str_exn (PyExn c m) = m"

fun isinstance_TankError :: "pyexn \<Rightarrow> bool" where
  "isinstance_TankError (PyExn c m) = (c = TankError_class)"

fun isinstance_Exception :: "pyexn \<Rightarrow> bool" where
  "isinstance_Exception (PyExn c m) = (c = TankError_class \<or> c = Exception_class)"

section \<open>Strings: \<^verbatim>\<open>split\<close> and \<^verbatim>\<open>join\<close>\<close>

text \<open>
  \<^verbatim>\<open>s.split(sep)\<close> for a one-character separator: the pieces between the separators,
  empty pieces kept, and one (empty) piece for the empty string.
\<close>

fun split_chr :: "char \<Rightarrow> string \<Rightarrow> string list" where
  "split_chr sep [] = [[]]"
| "split_chr sep (c # cs) =
     (if c = sep then [] # split_chr sep cs
      else (case split_chr sep cs of
              [] \<Rightarrow> [[c]]
            | piece # pieces \<Rightarrow> (c # piece) # pieces))"

text \<open>\<^verbatim>\<open>sep.join(pieces)\<close>.\<close>

fun join_str :: "string \<Rightarrow> string list \<Rightarrow> string" where
  "join_str sep [] = []"
| "join_str sep [x] = x"
| "join_str sep (x # y # ys) = x @ sep @ join_str sep (y # ys)"

definition newline :: char where
  "newline = CHR 0x0A"

section \<open>The work area, the action and its collaborators\<close>

text \<open>
  A toolkit context: the handler reads its attributes \<^verbatim>\<open>entity\<close> and
  \<^verbatim>\<open>project\<close>.
\<close>

record tk_context =
  entity :: pyval
  project :: pyval

type_synonym template = string

text \<open>
  The \<^verbatim>\<open>WorkArea\<close> handed to the constructor: \<^verbatim>\<open>env.context\<close>,
  \<^verbatim>\<open>env.work_area_template\<close> and \<^verbatim>\<open>env.work_template\<close>, each of which may be
  \<^verbatim>\<open>None\<close>.
\<close>

record work_area =
  env_context :: "tk_context option"
  work_area_template :: "template option"
  work_template :: "template option"

text \<open>
  The action object: \<^verbatim>\<open>self.label\<close> (set by the base class from the constructor's
  argument) and \<^verbatim>\<open>self._environment\<close>.
\<close>

record new_file_action =
  label :: string
  environment :: work_area

text \<open>
  The collaborators of \<^verbatim>\<open>execute\<close> live outside this file. Each is called at most
  once in a run, so the outside world is the outcome of each call: \<open>None\<close> when a call
  returns normally, \<open>Some e\<close> when it raises \<open>e\<close>; \<^verbatim>\<open>reset_current_scene\<close> either
  raises or returns a value that is tested for truthiness. \<open>context_eq\<close> is the
  outcome of \<^verbatim>\<open>self._environment.context == self._app.context\<close> (line 99), a call
  to the comparison method of the toolkit's context class: it raises, or returns a
  value that \<^verbatim>\<open>not\<close> tests for truthiness. \<open>support_url\<close> is the constant imported
  from the toolkit. The logger calls and the message box are effects that complete.
\<close>

record world =
  support_url :: string
  create_folders_if_needed :: "pyexn option"
  as_template_fields :: "pyexn option"
  reset_current_scene :: "pyexn + pyval"
  prepare_new_scene :: "pyexn option"
  context_eq :: "pyexn + pyval"
  change_context :: "pyexn option"
  log_metric :: "pyexn option"

type_synonym widget = nat

datatype qicon = QMessageBox_Information

datatype qbutton = QMessageBox_Ok

text \<open>
  The message box of lines 111 to 121: the five constructor arguments, the detailed
  text (\<open>None\<close> when \<^verbatim>\<open>setDetailedText\<close> is not called) and the default button.
\<close>

record message_box =
  mb_icon :: qicon
  mb_title :: string
  mb_text :: string
  mb_buttons :: qbutton
  mb_parent :: widget
  mb_detailed_text :: "string option"
  mb_default_button :: qbutton

text \<open>The calls that \<^verbatim>\<open>execute\<close> makes, in the order they are made, with their arguments.\<close>

datatype event =
    CreateFoldersIfNeeded "tk_context option" "template option"
  | AsTemplateFields "tk_context option" "template option"
  | ResetCurrentScene "tk_context option"
  | PrepareNewScene "tk_context option"
  | ChangeContext "tk_context option"
  | LogException string
  | LogDebug string
  | LogMetric string
  | MessageBoxExec message_box

text \<open>How a run of \<^verbatim>\<open>execute\<close> ends for its caller.\<close>

datatype result = Returns bool | Propagates pyexn

text \<open>How the body of the outer \<^verbatim>\<open>try\<close> (lines 63 to 101) ends.\<close>

datatype body_outcome = Completed | ReturnedFalse | Raised pyexn

section \<open>\<^verbatim>\<open>NewFileAction.can_do_new_file\<close>\<close>

text \<open>
  Lines 35 to 40. The chain of \<^verbatim>\<open>and\<close> stops at the first falsy operand and returns
  it; \<^verbatim>\<open>env.context.entity\<close> is only read when \<^verbatim>\<open>env.context\<close> is not \<^verbatim>\<open>None\<close>.
\<close>

definition can_do_new_file :: "work_area \<Rightarrow> pyval" where
  "can_do_new_file env =
     (case env_context env of
        None \<Rightarrow> PyBool False
      | Some c \<Rightarrow>
          py_and (py_or (entity c) (project c))
                 (PyBool (work_area_template env \<noteq> None)))"

section \<open>\<^verbatim>\<open>NewFileAction.execute\<close>\<close>

definition resolve_failed_log :: string where
  "resolve_failed_log = ''Unable to resolve template fields after folder creation!''"

text \<open>The message of the exception raised at lines 79 to 85.\<close>

definition resolve_failed_message :: "string \<Rightarrow> string \<Rightarrow> string" where
  "resolve_failed_message url err =
     ''Unable to resolve template fields after folder creation!  This could mean ''
     @ ''there is a mismatch between your folder schema and templates. Please ''
     @ ''contact us via '' @ url @ '' if you need help fixing this.''
     @ [newline, newline] @ err"

text \<open>Lines 66 to 72, the body of the inner \<^verbatim>\<open>try\<close>.\<close>

definition execute_folders :: "new_file_action \<Rightarrow> world \<Rightarrow> event list \<times> pyexn option" where
  "execute_folders a w =
     (let env = environment a;
          create = CreateFoldersIfNeeded (env_context env) (work_template env);
          fields = AsTemplateFields (env_context env) (work_template env)
      in case create_folders_if_needed w of
           Some e \<Rightarrow> ([create], Some e)
         | None \<Rightarrow>
             (case as_template_fields w of
                Some e \<Rightarrow> ([create, fields], Some e)
              | None \<Rightarrow> ([create, fields], None)))"

text \<open>Lines 64 to 85, the inner \<^verbatim>\<open>try\<close> with its \<^verbatim>\<open>except TankError\<close> clause.\<close>

definition execute_inner_try :: "new_file_action \<Rightarrow> world \<Rightarrow> event list \<times> pyexn option" where
  "execute_inner_try a w =
     (case execute_folders a w of
        (evs, None) \<Rightarrow> (evs, None)
      | (evs, Some e) \<Rightarrow>
          if isinstance_TankError e
          then (evs @ [LogException resolve_failed_log],
                Some (PyExn TankError_class
                        (resolve_failed_message (support_url w) (str_exn e))))
          else (evs, Some e))"

text \<open>Lines 63 to 101, the body of the outer \<^verbatim>\<open>try\<close>.\<close>

definition execute_try_body :: "new_file_action \<Rightarrow> world \<Rightarrow> event list \<times> body_outcome" where
  "execute_try_body a w =
     (let ctx = env_context (environment a) in
      case execute_inner_try a w of
        (evs, Some e) \<Rightarrow> (evs, Raised e)
      | (evs, None) \<Rightarrow>
          (case reset_current_scene w of
             Inl e \<Rightarrow> (evs @ [ResetCurrentScene ctx], Raised e)
           | Inr v \<Rightarrow>
               if \<not> truthy v
               then (evs @ [ResetCurrentScene ctx,
                            LogDebug ''Unable to perform New Scene operation after failing to reset scene!''],
                     ReturnedFalse)
               else
                 (case prepare_new_scene w of
                    Some e \<Rightarrow> (evs @ [ResetCurrentScene ctx, PrepareNewScene ctx], Raised e)
                  | None \<Rightarrow>
                      (case context_eq w of
                         Inl e \<Rightarrow>
                           (evs @ [ResetCurrentScene ctx, PrepareNewScene ctx], Raised e)
                       | Inr same \<Rightarrow>
                           if \<not> truthy same
                           then
                             (case change_context w of
                                Some e \<Rightarrow>
                                  (evs @ [ResetCurrentScene ctx, PrepareNewScene ctx,
                                          ChangeContext ctx],
                                   Raised e)
                              | None \<Rightarrow>
                                  (evs @ [ResetCurrentScene ctx, PrepareNewScene ctx,
                                          ChangeContext ctx],
                                   Completed))
                           else
                             (evs @ [ResetCurrentScene ctx, PrepareNewScene ctx],
                              Completed)))))"

text \<open>Line 104.\<close>

definition error_title :: "new_file_action \<Rightarrow> string" where
  "error_title a = ''Failed to complete '' @ [CHR 0x27] @ label a @ [CHR 0x27] @ '' action''"

text \<open>
  Lines 104 to 124, the \<^verbatim>\<open>except Exception as e\<close> clause. \<^verbatim>\<open>error_strs[0]\<close> raises
  \<^verbatim>\<open>IndexError\<close> on an empty list, which would leave the handler.
\<close>

definition execute_report_error ::
    "new_file_action \<Rightarrow> widget \<Rightarrow> pyexn \<Rightarrow> event list \<times> result" where
  "execute_report_error a parent_ui e =
     (case split_chr newline (str_exn e) of
        [] \<Rightarrow> ([], Propagates (PyExn Exception_class ''list index out of range''))
      | first # rest \<Rightarrow>
          ([MessageBoxExec
              \<lparr> mb_icon = QMessageBox_Information,
                mb_title = error_title a,
                mb_text = error_title a @ (if first \<noteq> [] then [newline, newline] @ first else []),
                mb_buttons = QMessageBox_Ok,
                mb_parent = parent_ui,
                mb_detailed_text = (if rest \<noteq> [] then Some (join_str '' '' rest) else None),
                mb_default_button = QMessageBox_Ok \<rparr>,
            LogException (error_title a)],
           Returns False))"

text \<open>
  Lines 125 to 130, the \<^verbatim>\<open>else\<close> clause: the bare \<^verbatim>\<open>except:\<close> drops whatever
  \<^verbatim>\<open>log_metric\<close> raises.
\<close>

definition execute_metrics :: "world \<Rightarrow> event list" where
  "execute_metrics w =
     (case log_metric w of
        None \<Rightarrow> [LogMetric ''New Workfile'']
      | Some e \<Rightarrow> [LogMetric ''New Workfile''])"

text \<open>
  Lines 57 to 132. An exception that \<^verbatim>\<open>except Exception\<close> does not match leaves
  \<^verbatim>\<open>execute\<close>; a \<^verbatim>\<open>return\<close> inside the \<^verbatim>\<open>try\<close> skips the \<^verbatim>\<open>else\<close> clause.
\<close>

definition execute :: "new_file_action \<Rightarrow> world \<Rightarrow> widget \<Rightarrow> event list \<times> result" where
  "execute a w parent_ui =
     (if \<not> truthy (can_do_new_file (environment a)) then ([], Returns False)
      else
        (case execute_try_body a w of
           (evs, Raised e) \<Rightarrow>
             if isinstance_Exception e
             then (case execute_report_error a parent_ui e of
                     (evs', r) \<Rightarrow> (evs @ evs', r))
             else (evs, Propagates e)
         | (evs, ReturnedFalse) \<Rightarrow> (evs, Returns False)
         | (evs, Completed) \<Rightarrow> (evs @ execute_metrics w, Returns True)))"

section \<open>Vocabulary of the properties\<close>

text \<open>The five orchestration steps, and the step that a call belongs to.\<close>

datatype step_kind =
  FolderCreation | TemplateFieldValidation | SceneReset | ScenePreparation | ContextChange

fun step_of :: "event \<Rightarrow> step_kind option" where
  "step_of (CreateFoldersIfNeeded c t) = Some FolderCreation"
| "step_of (AsTemplateFields c t) = Some TemplateFieldValidation"
| "step_of (ResetCurrentScene c) = Some SceneReset"
| "step_of (PrepareNewScene c) = Some ScenePreparation"
| "step_of (ChangeContext c) = Some ContextChange"
| "step_of (LogException m) = None"
| "step_of (LogDebug m) = None"
| "step_of (LogMetric m) = None"
| "step_of (MessageBoxExec b) = None"

fun steps :: "event list \<Rightarrow> step_kind list" where
  "steps [] = []"
| "steps (ev # evs) = (case step_of ev of None \<Rightarrow> steps evs | Some s \<Rightarrow> s # steps evs)"

fun dialog_of :: "event \<Rightarrow> message_box option" where
  "dialog_of (MessageBoxExec b) = Some b"
| "dialog_of (CreateFoldersIfNeeded c t) = None"
| "dialog_of (AsTemplateFields c t) = None"
| "dialog_of (ResetCurrentScene c) = None"
| "dialog_of (PrepareNewScene c) = None"
| "dialog_of (ChangeContext c) = None"
| "dialog_of (LogException m) = None"
| "dialog_of (LogDebug m) = None"
| "dialog_of (LogMetric m) = None"

fun dialogs :: "event list \<Rightarrow> message_box list" where
  "dialogs [] = []"
| "dialogs (ev # evs) = (case dialog_of ev of None \<Rightarrow> dialogs evs | Some b \<Rightarrow> b # dialogs evs)"

text \<open>
  The exception, if any, that one of the five orchestration steps raises in a run that
  has passed the validation of line 57: the steps are tried in the order of the source,
  a step after a raising step or after a falsy scene reset is not reached, and the
  context change is only reached when the comparison of line 99 returns a falsy value.
\<close>

definition step_exception :: "new_file_action \<Rightarrow> world \<Rightarrow> pyexn option" where
  "step_exception a w =
     (case create_folders_if_needed w of
        Some e \<Rightarrow> Some e
      | None \<Rightarrow>
          (case as_template_fields w of
             Some e \<Rightarrow> Some e
           | None \<Rightarrow>
               (case reset_current_scene w of
                  Inl e \<Rightarrow> Some e
                | Inr v \<Rightarrow>
                    if \<not> truthy v then None
                    else
                      (case prepare_new_scene w of
                         Some e \<Rightarrow> Some e
                       | None \<Rightarrow>
                           (case context_eq w of
                              Inl e \<Rightarrow> None
                            | Inr same \<Rightarrow>
                                if \<not> truthy same then change_context w else None)))))"

text \<open>
  The exception, if any, that the comparison of line 99 raises in a run that reaches
  it: validation has passed, the first four steps have succeeded.
\<close>

definition comparison_exception :: "new_file_action \<Rightarrow> world \<Rightarrow> pyexn option" where
  "comparison_exception a w =
     (case create_folders_if_needed w of
        Some e \<Rightarrow> None
      | None \<Rightarrow>
          (case as_template_fields w of
             Some e \<Rightarrow> None
           | None \<Rightarrow>
               (case reset_current_scene w of
                  Inl e \<Rightarrow> None
                | Inr v \<Rightarrow>
                    if \<not> truthy v then None
                    else
                      (case prepare_new_scene w of
                         Some e \<Rightarrow> None
                       | None \<Rightarrow>
                           (case context_eq w of
                              Inl e \<Rightarrow> Some e
                            | Inr same \<Rightarrow> None)))))"

section \<open>Example inputs\<close>

definition shot_context :: tk_context where
  "shot_context =
     \<lparr> entity = PyDict [(''type'', ''Shot''), (''id'', ''12'')],
       project = PyDict [(''type'', ''Project''), (''id'', ''3'')] \<rparr>"

definition shot_area :: work_area where
  "shot_area =
     \<lparr> env_context = Some shot_context,
       work_area_template = Some ''shot_work_area'',
       work_template = Some ''shot_work'' \<rparr>"

definition shot_action :: new_file_action where
  "shot_action = \<lparr> label = ''New File'', environment = shot_area \<rparr>"

text \<open>
  A world in which every call succeeds and the comparison of line 99 finds the
  application in another context.
\<close>

definition calm_world :: world where
  "calm_world =
     \<lparr> support_url = ''https://support.example'',
       create_folders_if_needed = None,
       as_template_fields = None,
       reset_current_scene = Inr (PyBool True),
       prepare_new_scene = None,
       context_eq = Inr (PyBool False),
       change_context = None,
       log_metric = None \<rparr>"

section \<open>Auxiliary facts\<close>

lemma steps_append: "steps (xs @ ys) = steps xs @ steps ys"
  by (induction xs) (auto split: option.splits)


text \<open>\<^verbatim>\<open>split\<close> always gives at least one piece, so \<^verbatim>\<open>error_strs[0]\<close> exists.\<close>

lemma split_chr_not_Nil: "split_chr sep s \<noteq> []"
  by (induction s) (auto split: list.splits)

text \<open>Joining the pieces with the separator gives the string back.\<close>

lemma join_split_chr: "join_str [sep] (split_chr sep s) = s"
proof (induction s)
  case Nil
  show ?case by simp
next
  case (Cons c cs)
  obtain piece pieces where sp: "split_chr sep cs = piece # pieces"
    using split_chr_not_Nil [of sep cs] by (cases "split_chr sep cs") auto
  show ?case
  proof (cases "c = sep")
    case True
    with Cons sp show ?thesis by simp
  next
    case False
    with Cons sp show ?thesis by (cases pieces) auto
  qed
qed

lemma isinstance_TankError_Exception:
  "isinstance_TankError e \<Longrightarrow> isinstance_Exception e"
  by (cases e) simp

lemmas try_body_defs =
  execute_try_body_def execute_inner_try_def execute_folders_def Let_def

lemmas example_defs =
  shot_action_def shot_area_def shot_context_def calm_world_def

lemma try_body_raised:
  "step_exception a w = Some e \<Longrightarrow>
   \<exists>evs e'. execute_try_body a w = (evs, Raised e') \<and> dialogs evs = []
      \<and> isinstance_Exception e' = isinstance_Exception e
      \<and> (\<not> isinstance_Exception e \<longrightarrow> e' = e)"
  by (auto simp: step_exception_def try_body_defs isinstance_TankError_Exception
      split: option.splits sum.splits if_splits)

lemma try_body_comparison_raised:
  "comparison_exception a w = Some e \<Longrightarrow>
   \<exists>evs. execute_try_body a w = (evs, Raised e) \<and> dialogs evs = []"
  by (auto simp: comparison_exception_def try_body_defs
      split: option.splits sum.splits if_splits)

lemma try_body_not_raised:
  "step_exception a w = None \<Longrightarrow> comparison_exception a w = None \<Longrightarrow>
   \<exists>evs r. execute_try_body a w = (evs, r) \<and> dialogs evs = []
      \<and> (r = Completed \<or> r = ReturnedFalse)"
  by (auto simp: step_exception_def comparison_exception_def try_body_defs
      split: option.splits sum.splits if_splits)

lemma try_body_dialogs: "dialogs (fst (execute_try_body a w)) = []"
  by (simp add: try_body_defs split: option.split sum.split)

lemma try_body_steps_prefix:
  "prefix (steps (fst (execute_try_body a w)))
     [FolderCreation, TemplateFieldValidation, SceneReset, ScenePreparation, ContextChange]"
  by (simp add: try_body_defs split: option.split sum.split)

lemma report_error_steps: "execute_report_error a p e = (evs, r) \<Longrightarrow> steps evs = []"
  by (auto simp add: execute_report_error_def split: list.splits)

lemma metrics_steps: "steps (execute_metrics w) = []"
  by (simp add: execute_metrics_def split: option.split)

lemma metrics_dialogs: "dialogs (execute_metrics w) = []"
  by (simp add: execute_metrics_def split: option.split)

text \<open>The error handler and the metrics call perform no orchestration step.\<close>

lemma execute_steps:
  "steps (fst (execute a w p)) =
     (if truthy (can_do_new_file (environment a)) then steps (fst (execute_try_body a w))
      else [])"
  by (auto simp add: execute_def steps_append metrics_steps report_error_steps
      split: prod.split body_outcome.split)

text \<open>The error handler always shows one message box, logs, and returns \<^verbatim>\<open>False\<close>.\<close>

lemma report_error_form:
  "\<exists>first rest. split_chr newline (str_exn e) = first # rest \<and>
     execute_report_error a p e =
       ([MessageBoxExec
              \<lparr> mb_icon = QMessageBox_Information,
                mb_title = error_title a,
                mb_text = error_title a @ (if first \<noteq> [] then [newline, newline] @ first else []),
                mb_buttons = QMessageBox_Ok,
                mb_parent = p,
                mb_detailed_text = (if rest \<noteq> [] then Some (join_str '' '' rest) else None),
                mb_default_button = QMessageBox_Ok \<rparr>,
            LogException (error_title a)], Returns False)"
  using split_chr_not_Nil [of newline "str_exn e"]
  by (cases "split_chr newline (str_exn e)") (auto simp: execute_report_error_def)

lemma set_dialogs: "b \<in> set (dialogs evs) \<longleftrightarrow> MessageBoxExec b \<in> set evs"
proof (induction evs)
  case Nil
  show ?case by simp
next
  case (Cons ev evs)
  then show ?case by (cases ev) auto
qed

section \<open>Validation of the work area\<close>

text \<open>
  C3. For every work area \<open>env\<close>, \<^verbatim>\<open>can_do_new_file(env)\<close> returns a truthy value
  exactly when \<^verbatim>\<open>env.context\<close> is not \<^verbatim>\<open>None\<close>, at least one of
  \<^verbatim>\<open>env.context.entity\<close> and \<^verbatim>\<open>env.context.project\<close> is truthy, and
  \<^verbatim>\<open>env.work_area_template\<close> is not \<^verbatim>\<open>None\<close>.
\<close>

theorem can_do_new_file_truthy_iff:
  "truthy (can_do_new_file env) \<longleftrightarrow>
     (\<exists>c. env_context env = Some c \<and> (truthy (entity c) \<or> truthy (project c)))
     \<and> work_area_template env \<noteq> None"
  by (auto simp: can_do_new_file_def py_and_def py_or_def split: option.splits)

theorem can_do_new_file_truthy_iff_witness:
  "truthy (can_do_new_file shot_area)
   \<and> \<not> truthy (can_do_new_file (shot_area \<lparr> work_area_template := None \<rparr>))"
  using can_do_new_file_truthy_iff [of shot_area]
    can_do_new_file_truthy_iff [of "shot_area \<lparr> work_area_template := None \<rparr>"]
  by (simp add: example_defs)

text \<open>
  C2. Whenever \<^verbatim>\<open>can_do_new_file\<close> of the action's work area is falsy, \<^verbatim>\<open>execute\<close>
  returns \<^verbatim>\<open>False\<close> at once and makes no call at all: no folder creation, no
  template-field validation, no scene reset, no scene preparation, no context change
  and no dialog.
\<close>

theorem execute_refuses_unusable_work_area:
  "\<not> truthy (can_do_new_file (environment a)) \<Longrightarrow> execute a w p = ([], Returns False)"
  by (simp add: execute_def)

theorem execute_refuses_unusable_work_area_witness:
  "\<not> truthy (can_do_new_file (environment (shot_action \<lparr> environment := shot_area \<lparr> env_context := None \<rparr> \<rparr>)))
   \<and> execute (shot_action \<lparr> environment := shot_area \<lparr> env_context := None \<rparr> \<rparr>) calm_world 7
       = ([], Returns False)"
proof -
  have h: "\<not> truthy (can_do_new_file
              (environment (shot_action \<lparr> environment := shot_area \<lparr> env_context := None \<rparr> \<rparr>)))"
    by (simp add: example_defs can_do_new_file_def)
  from h execute_refuses_unusable_work_area [OF h, of calm_world 7] show ?thesis
    by simp
qed

section \<open>Order of the steps\<close>

text \<open>
  C4. In every run the orchestration steps that are performed form an initial part of
  the sequence folder creation, template-field validation, scene reset, scene
  preparation, context change, so no step is performed before an earlier one; and in a
  run in which validation passes and no step fails, the first four are all performed,
  in this order, followed by the context change exactly when the comparison of line 99
  returns a falsy value (and by nothing when the comparison raises).
\<close>

theorem execute_step_order:
  "prefix (steps (fst (execute a w p)))
     [FolderCreation, TemplateFieldValidation, SceneReset, ScenePreparation, ContextChange]
   \<and> (truthy (can_do_new_file (environment a)) \<and> create_folders_if_needed w = None
        \<and> as_template_fields w = None \<and> (\<exists>v. reset_current_scene w = Inr v \<and> truthy v)
        \<and> prepare_new_scene w = None \<longrightarrow>
      steps (fst (execute a w p)) =
        [FolderCreation, TemplateFieldValidation, SceneReset, ScenePreparation]
        @ (case context_eq w of
             Inl e \<Rightarrow> []
           | Inr same \<Rightarrow> if truthy same then [] else [ContextChange]))"
proof
  show "prefix (steps (fst (execute a w p)))
     [FolderCreation, TemplateFieldValidation, SceneReset, ScenePreparation, ContextChange]"
    using try_body_steps_prefix [of a w] by (simp add: execute_steps)
next
  show "truthy (can_do_new_file (environment a)) \<and> create_folders_if_needed w = None
        \<and> as_template_fields w = None \<and> (\<exists>v. reset_current_scene w = Inr v \<and> truthy v)
        \<and> prepare_new_scene w = None \<longrightarrow>
      steps (fst (execute a w p)) =
        [FolderCreation, TemplateFieldValidation, SceneReset, ScenePreparation]
        @ (case context_eq w of
             Inl e \<Rightarrow> []
           | Inr same \<Rightarrow> if truthy same then [] else [ContextChange])"
    by (auto simp: execute_steps try_body_defs split: option.split sum.split)
qed

theorem execute_step_order_witness:
  "truthy (can_do_new_file (environment shot_action))
   \<and> create_folders_if_needed calm_world = None
   \<and> as_template_fields calm_world = None
   \<and> reset_current_scene calm_world = Inr (PyBool True) \<and> truthy (PyBool True)
   \<and> prepare_new_scene calm_world = None
   \<and> context_eq calm_world = Inr (PyBool False)
   \<and> steps (fst (execute shot_action calm_world 7)) =
       [FolderCreation, TemplateFieldValidation, SceneReset, ScenePreparation, ContextChange]
   \<and> context_eq (calm_world \<lparr> context_eq := Inr (PyBool True) \<rparr>) = Inr (PyBool True)
   \<and> steps (fst (execute shot_action (calm_world \<lparr> context_eq := Inr (PyBool True) \<rparr>) 7)) =
       [FolderCreation, TemplateFieldValidation, SceneReset, ScenePreparation]"
  using execute_step_order [of shot_action calm_world 7]
    execute_step_order [of shot_action "calm_world \<lparr> context_eq := Inr (PyBool True) \<rparr>" 7]
  by (simp add: example_defs can_do_new_file_def py_and_def py_or_def)

section \<open>The context change\<close>

text \<open>
  C5. \<^verbatim>\<open>FileAction.change_context\<close> is called exactly when validation passed, folder
  creation and template-field validation did not raise, the scene reset returned a
  truthy value, scene preparation did not raise, and the comparison of the work area's
  context with the application's current context (line 99) returned a falsy value,
  that is, the contexts are not equal. When the comparison finds them equal, or raises,
  it is not called.
\<close>

theorem change_context_called_iff:
  "ContextChange \<in> set (steps (fst (execute a w p))) \<longleftrightarrow>
     truthy (can_do_new_file (environment a))
     \<and> create_folders_if_needed w = None \<and> as_template_fields w = None
     \<and> (\<exists>v. reset_current_scene w = Inr v \<and> truthy v)
     \<and> prepare_new_scene w = None
     \<and> (\<exists>same. context_eq w = Inr same \<and> \<not> truthy same)"
  by (auto simp: execute_steps try_body_defs split: option.splits sum.splits if_splits)

theorem change_context_called_iff_witness:
  "ContextChange \<in> set (steps (fst (execute shot_action calm_world 7)))
   \<and> ContextChange \<notin> set (steps (fst (execute shot_action
         (calm_world \<lparr> context_eq := Inr (PyBool True) \<rparr>) 7)))
   \<and> ContextChange \<notin> set (steps (fst (execute shot_action
         (calm_world \<lparr> context_eq := Inl (PyExn Exception_class ''id'') \<rparr>) 7)))"
  using change_context_called_iff [of shot_action calm_world 7]
    change_context_called_iff [of shot_action "calm_world \<lparr> context_eq := Inr (PyBool True) \<rparr>" 7]
    change_context_called_iff [of shot_action
      "calm_world \<lparr> context_eq := Inl (PyExn Exception_class ''id'') \<rparr>" 7]
  by (simp add: example_defs can_do_new_file_def py_and_def py_or_def)

section \<open>Replacement of a \<^verbatim>\<open>TankError\<close> from the folder steps\<close>

text \<open>
  C6. Whenever \<^verbatim>\<open>create_folders_if_needed\<close> or \<^verbatim>\<open>as_template_fields\<close> raises a
  \<^verbatim>\<open>TankError\<close>, the body of the outer \<^verbatim>\<open>try\<close> first logs the original exception
  and then raises a new \<^verbatim>\<open>TankError\<close> whose message is the fixed explanation, with
  the support URL inside it, followed by a blank line and the string form of the
  original error.
\<close>

theorem tank_error_replaced:
  assumes "create_folders_if_needed w = Some e
           \<or> (create_folders_if_needed w = None \<and> as_template_fields w = Some e)"
    and "isinstance_TankError e"
  shows "\<exists>evs. execute_folders a w = (evs, Some e)
     \<and> execute_try_body a w =
        (evs @ [LogException ''Unable to resolve template fields after folder creation!''],
         Raised (PyExn TankError_class
           (''Unable to resolve template fields after folder creation!  This could mean there is a mismatch between your folder schema and templates. Please contact us via ''
            @ support_url w @ '' if you need help fixing this.'' @ [newline, newline]
            @ str_exn e)))"
  using assms
  by (auto simp: try_body_defs resolve_failed_log_def resolve_failed_message_def)

theorem tank_error_replaced_witness:
  "as_template_fields (calm_world \<lparr> as_template_fields := Some (PyExn TankError_class ''Missing key Shot'') \<rparr>)
      = Some (PyExn TankError_class ''Missing key Shot'')
   \<and> isinstance_TankError (PyExn TankError_class ''Missing key Shot'')
   \<and> execute_try_body shot_action
        (calm_world \<lparr> as_template_fields := Some (PyExn TankError_class ''Missing key Shot'') \<rparr>) =
        ([CreateFoldersIfNeeded (Some shot_context) (Some ''shot_work''),
          AsTemplateFields (Some shot_context) (Some ''shot_work''),
          LogException ''Unable to resolve template fields after folder creation!''],
         Raised (PyExn TankError_class
           (''Unable to resolve template fields after folder creation!  This could mean there is a mismatch between your folder schema and templates. Please contact us via https://support.example if you need help fixing this.''
            @ [newline, newline] @ ''Missing key Shot'')))"
  using tank_error_replaced [of
      "calm_world \<lparr> as_template_fields := Some (PyExn TankError_class ''Missing key Shot'') \<rparr>"
      "PyExn TankError_class ''Missing key Shot''" shot_action]
  by (auto simp add: example_defs execute_folders_def)

section \<open>A scene reset that reports failure\<close>

text \<open>
  C7. If \<^verbatim>\<open>reset_current_scene\<close> is called and returns a falsy value, \<^verbatim>\<open>execute\<close>
  returns \<^verbatim>\<open>False\<close> and calls neither \<^verbatim>\<open>prepare_new_scene\<close> nor
  \<^verbatim>\<open>change_context\<close>; and whenever \<^verbatim>\<open>prepare_new_scene\<close> is called, the scene
  reset has returned a truthy value and was called before it.
\<close>

theorem falsy_reset_stops:
  "(SceneReset \<in> set (steps (fst (execute a w p))) \<and> reset_current_scene w = Inr v
      \<and> \<not> truthy v \<longrightarrow>
        snd (execute a w p) = Returns False
        \<and> ScenePreparation \<notin> set (steps (fst (execute a w p)))
        \<and> ContextChange \<notin> set (steps (fst (execute a w p))))
   \<and> (ScenePreparation \<in> set (steps (fst (execute a w p))) \<longrightarrow>
        (\<exists>v'. reset_current_scene w = Inr v' \<and> truthy v')
        \<and> take 4 (steps (fst (execute a w p))) =
            [FolderCreation, TemplateFieldValidation, SceneReset, ScenePreparation])"
proof (intro conjI impI)
  assume h: "SceneReset \<in> set (steps (fst (execute a w p))) \<and> reset_current_scene w = Inr v
      \<and> \<not> truthy v"
  then have valid: "truthy (can_do_new_file (environment a))"
    by (auto simp: execute_steps split: if_splits)
  from h valid have inner: "\<exists>evs. execute_inner_try a w = (evs, None)"
    by (auto simp: execute_steps try_body_defs split: option.splits if_splits)
  with h valid show "snd (execute a w p) = Returns False"
    by (auto simp: execute_def execute_try_body_def Let_def)
  from h inner show "ScenePreparation \<notin> set (steps (fst (execute a w p)))"
    by (auto simp: execute_steps try_body_defs split: option.splits if_splits)
  from h inner show "ContextChange \<notin> set (steps (fst (execute a w p)))"
    by (auto simp: execute_steps try_body_defs split: option.splits if_splits)
next
  assume "ScenePreparation \<in> set (steps (fst (execute a w p)))"
  then show "\<exists>v'. reset_current_scene w = Inr v' \<and> truthy v'"
    by (auto simp: execute_steps try_body_defs split: option.splits sum.splits if_splits)
next
  assume "ScenePreparation \<in> set (steps (fst (execute a w p)))"
  then show "take 4 (steps (fst (execute a w p))) =
            [FolderCreation, TemplateFieldValidation, SceneReset, ScenePreparation]"
    by (auto simp: execute_steps try_body_defs split: option.splits sum.splits if_splits)
qed

theorem falsy_reset_stops_witness:
  "SceneReset \<in> set (steps (fst (execute shot_action
        (calm_world \<lparr> reset_current_scene := Inr PyNone \<rparr>) 7)))
   \<and> reset_current_scene (calm_world \<lparr> reset_current_scene := Inr PyNone \<rparr>) = Inr PyNone
   \<and> \<not> truthy PyNone
   \<and> snd (execute shot_action (calm_world \<lparr> reset_current_scene := Inr PyNone \<rparr>) 7)
        = Returns False
   \<and> ScenePreparation \<in> set (steps (fst (execute shot_action calm_world 7)))
   \<and> reset_current_scene calm_world = Inr (PyBool True)"
proof -
  have h: "SceneReset \<in> set (steps (fst (execute shot_action
        (calm_world \<lparr> reset_current_scene := Inr PyNone \<rparr>) 7)))"
    by (simp add: example_defs can_do_new_file_def py_and_def py_or_def execute_steps
        try_body_defs)
  have k: "ScenePreparation \<in> set (steps (fst (execute shot_action calm_world 7)))"
    by (simp add: example_defs can_do_new_file_def py_and_def py_or_def execute_steps
        try_body_defs)
  have r: "reset_current_scene (calm_world \<lparr> reset_current_scene := Inr PyNone \<rparr>) = Inr PyNone"
    by (simp add: calm_world_def)
  have c: "reset_current_scene calm_world = Inr (PyBool True)"
    by (simp add: calm_world_def)
  from falsy_reset_stops [of shot_action "calm_world \<lparr> reset_current_scene := Inr PyNone \<rparr>" 7 PyNone]
    h r
  have "snd (execute shot_action (calm_world \<lparr> reset_current_scene := Inr PyNone \<rparr>) 7)
        = Returns False"
    by simp
  with h k r c show ?thesis by simp
qed

section \<open>Failure of the metrics call\<close>

text \<open>
  C8. If validation passes and every step up to the optional context change succeeds
  (the four steps return, the scene reset with a truthy value, the comparison of line
  99 returns, and the context change, when it is called, returns), \<^verbatim>\<open>execute\<close>
  returns \<^verbatim>\<open>True\<close> and shows no dialog even when \<^verbatim>\<open>log_metric\<close> raises an exception
  of any class: the run is the same as the run in which \<^verbatim>\<open>log_metric\<close> returns
  normally.
\<close>

theorem metrics_failure_ignored:
  assumes "truthy (can_do_new_file (environment a))"
    and "create_folders_if_needed w = None" and "as_template_fields w = None"
    and "reset_current_scene w = Inr v" and "truthy v"
    and "prepare_new_scene w = None"
    and "context_eq w = Inr same"
    and "truthy same \<or> change_context w = None"
    and "log_metric w = Some e"
  shows "snd (execute a w p) = Returns True
     \<and> dialogs (fst (execute a w p)) = []
     \<and> execute a w p = execute a (w \<lparr> log_metric := None \<rparr>) p"
  using assms
  by (auto simp: execute_def try_body_defs execute_metrics_def)

theorem metrics_failure_ignored_witness:
  "truthy (can_do_new_file (environment shot_action))
   \<and> create_folders_if_needed
        (calm_world \<lparr> log_metric := Some (PyExn BaseException_class ''KeyboardInterrupt'') \<rparr>) = None
   \<and> as_template_fields
        (calm_world \<lparr> log_metric := Some (PyExn BaseException_class ''KeyboardInterrupt'') \<rparr>) = None
   \<and> reset_current_scene
        (calm_world \<lparr> log_metric := Some (PyExn BaseException_class ''KeyboardInterrupt'') \<rparr>)
       = Inr (PyBool True)
   \<and> truthy (PyBool True)
   \<and> prepare_new_scene
        (calm_world \<lparr> log_metric := Some (PyExn BaseException_class ''KeyboardInterrupt'') \<rparr>) = None
   \<and> context_eq
        (calm_world \<lparr> log_metric := Some (PyExn BaseException_class ''KeyboardInterrupt'') \<rparr>)
       = Inr (PyBool False)
   \<and> change_context
        (calm_world \<lparr> log_metric := Some (PyExn BaseException_class ''KeyboardInterrupt'') \<rparr>) = None
   \<and> log_metric
        (calm_world \<lparr> log_metric := Some (PyExn BaseException_class ''KeyboardInterrupt'') \<rparr>)
       = Some (PyExn BaseException_class ''KeyboardInterrupt'')
   \<and> snd (execute shot_action
        (calm_world \<lparr> log_metric := Some (PyExn BaseException_class ''KeyboardInterrupt'') \<rparr>) 7)
       = Returns True
   \<and> dialogs (fst (execute shot_action
        (calm_world \<lparr> log_metric := Some (PyExn BaseException_class ''KeyboardInterrupt'') \<rparr>) 7))
       = []"
proof -
  let ?w = "calm_world \<lparr> log_metric := Some (PyExn BaseException_class ''KeyboardInterrupt'') \<rparr>"
  have v: "truthy (can_do_new_file (environment shot_action))"
    by (simp add: example_defs can_do_new_file_def py_and_def py_or_def)
  have c: "create_folders_if_needed ?w = None" by (simp add: calm_world_def)
  have f: "as_template_fields ?w = None" by (simp add: calm_world_def)
  have r: "reset_current_scene ?w = Inr (PyBool True)" by (simp add: calm_world_def)
  have t: "truthy (PyBool True)" by simp
  have n: "prepare_new_scene ?w = None" by (simp add: calm_world_def)
  have q: "context_eq ?w = Inr (PyBool False)" by (simp add: calm_world_def)
  have g: "change_context ?w = None" by (simp add: calm_world_def)
  then have d: "truthy (PyBool False) \<or> change_context ?w = None" by simp
  have m: "log_metric ?w = Some (PyExn BaseException_class ''KeyboardInterrupt'')"
    by (simp add: calm_world_def)
  from metrics_failure_ignored [OF v c f r t n q d m, of 7]
  have "snd (execute shot_action ?w 7) = Returns True
        \<and> dialogs (fst (execute shot_action ?w 7)) = []" by blast
  with v c f r n q g m show ?thesis by simp
qed

section \<open>Reporting of errors\<close>




text \<open>
  C10. When \<^verbatim>\<open>execute\<close> shows its message box, the body of the \<^verbatim>\<open>try\<close> has raised
  an exception \<open>e\<close> derived from \<^verbatim>\<open>Exception\<close>; the title is
  \<^verbatim>\<open>Failed to complete '<label>' action\<close>; the main text is the title, followed, only
  when the first line of \<^verbatim>\<open>str(e)\<close> is not empty, by a blank line and that first
  line; and the detailed text is set, only when there are further lines, to those lines
  joined with single spaces.
\<close>

theorem execute_dialog_text:
  assumes "MessageBoxExec b \<in> set (fst (execute a w p))"
  shows "\<exists>evs e first rest.
      execute_try_body a w = (evs, Raised e) \<and> isinstance_Exception e
      \<and> split_chr newline (str_exn e) = first # rest
      \<and> mb_title b = ''Failed to complete '' @ [CHR 0x27] @ label a @ [CHR 0x27] @ '' action''
      \<and> mb_text b = mb_title b @ (if first = [] then [] else [newline, newline] @ first)
      \<and> mb_detailed_text b = (if rest = [] then None else Some (join_str '' '' rest))
      \<and> mb_parent b = p"
proof -
  from assms have valid: "truthy (can_do_new_file (environment a))"
    by (auto simp: execute_def split: if_splits)
  obtain evs r where tb: "execute_try_body a w = (evs, r)"
    by (cases "execute_try_body a w") auto
  with try_body_dialogs [of a w] have nod: "\<And>x. MessageBoxExec x \<notin> set evs"
    by (simp add: set_dialogs [symmetric])
  show ?thesis
  proof (cases r)
    case Completed
    with assms valid tb nod show ?thesis
      by (auto simp: execute_def execute_metrics_def split: option.splits)
  next
    case ReturnedFalse
    with assms valid tb nod show ?thesis by (auto simp: execute_def)
  next
    case (Raised e)
    show ?thesis
    proof (cases "isinstance_Exception e")
      case False
      with Raised assms valid tb nod show ?thesis by (auto simp: execute_def)
    next
      case True
      from report_error_form [of e a p] obtain first rest where
        sp: "split_chr newline (str_exn e) = first # rest" and
        re: "execute_report_error a p e =
       ([MessageBoxExec
              \<lparr> mb_icon = QMessageBox_Information,
                mb_title = error_title a,
                mb_text = error_title a @ (if first \<noteq> [] then [newline, newline] @ first else []),
                mb_buttons = QMessageBox_Ok,
                mb_parent = p,
                mb_detailed_text = (if rest \<noteq> [] then Some (join_str '' '' rest) else None),
                mb_default_button = QMessageBox_Ok \<rparr>,
            LogException (error_title a)], Returns False)" by blast
      from assms valid tb Raised True re nod
      have "b = \<lparr> mb_icon = QMessageBox_Information,
                mb_title = error_title a,
                mb_text = error_title a @ (if first \<noteq> [] then [newline, newline] @ first else []),
                mb_buttons = QMessageBox_Ok,
                mb_parent = p,
                mb_detailed_text = (if rest \<noteq> [] then Some (join_str '' '' rest) else None),
                mb_default_button = QMessageBox_Ok \<rparr>"
        by (auto simp: execute_def)
      with tb Raised True sp show ?thesis
        by (auto simp: error_title_def)
    qed
  qed
qed

theorem execute_dialog_text_witness:
  "MessageBoxExec
     \<lparr> mb_icon = QMessageBox_Information,
       mb_title = ''Failed to complete '' @ [CHR 0x27] @ ''New File'' @ [CHR 0x27] @ '' action'',
       mb_text = ''Failed to complete '' @ [CHR 0x27] @ ''New File'' @ [CHR 0x27] @ '' action''
                 @ ''\<newline>\<newline>Scene is locked'',
       mb_buttons = QMessageBox_Ok,
       mb_parent = 7,
       mb_detailed_text = Some ''by another user since Monday'',
       mb_default_button = QMessageBox_Ok \<rparr>
     \<in> set (fst (execute shot_action
          (calm_world \<lparr> prepare_new_scene :=
             Some (PyExn Exception_class
               ''Scene is locked\<newline>by another user\<newline>since Monday'') \<rparr>)
          7))
   \<and> split_chr newline ''Scene is locked\<newline>by another user\<newline>since Monday''
       = [''Scene is locked'', ''by another user'', ''since Monday'']"
proof -
  let ?b = "\<lparr> mb_icon = QMessageBox_Information,
       mb_title = ''Failed to complete '' @ [CHR 0x27] @ ''New File'' @ [CHR 0x27] @ '' action'',
       mb_text = ''Failed to complete '' @ [CHR 0x27] @ ''New File'' @ [CHR 0x27] @ '' action''
                 @ ''\<newline>\<newline>Scene is locked'',
       mb_buttons = QMessageBox_Ok,
       mb_parent = 7,
       mb_detailed_text = Some ''by another user since Monday'',
       mb_default_button = QMessageBox_Ok \<rparr>"
  let ?e = "PyExn Exception_class ''Scene is locked\<newline>by another user\<newline>since Monday''"
  let ?w = "calm_world \<lparr> prepare_new_scene := Some ?e \<rparr>"
  have sp: "split_chr newline ''Scene is locked\<newline>by another user\<newline>since Monday''
       = [''Scene is locked'', ''by another user'', ''since Monday'']"
    by (simp add: newline_def)
  have valid: "truthy (can_do_new_file (environment shot_action))"
    by (simp add: example_defs can_do_new_file_def py_and_def py_or_def)
  have tb: "execute_try_body shot_action ?w =
      ([CreateFoldersIfNeeded (Some shot_context) (Some ''shot_work''),
        AsTemplateFields (Some shot_context) (Some ''shot_work''),
        ResetCurrentScene (Some shot_context), PrepareNewScene (Some shot_context)],
       Raised ?e)"
    by (simp add: example_defs try_body_defs)
  have lab: "label shot_action = ''New File''"
    by (simp add: shot_action_def)
  have re: "execute_report_error shot_action 7 ?e = ([MessageBoxExec ?b, LogException (error_title shot_action)], Returns False)"
    by (simp add: execute_report_error_def error_title_def lab sp) (simp add: newline_def)
  have h: "MessageBoxExec ?b \<in> set (fst (execute shot_action ?w 7))"
    by (simp add: execute_def valid tb re)
  from execute_dialog_text [OF h] h sp show ?thesis by simp
qed

section \<open>What the caller of \<^verbatim>\<open>execute\<close> sees\<close>

text \<open>
  C9, as stated, fails: a \<^verbatim>\<open>SystemExit\<close> raised by the scene reset is not matched by
  \<^verbatim>\<open>except Exception\<close> and reaches the caller.
\<close>

theorem execute_propagates_SystemExit:
  "truthy (can_do_new_file (environment shot_action))
   \<and> reset_current_scene
        (calm_world \<lparr> reset_current_scene := Inl (PyExn BaseException_class ''SystemExit'') \<rparr>)
       = Inl (PyExn BaseException_class ''SystemExit'')
   \<and> snd (execute shot_action
        (calm_world \<lparr> reset_current_scene := Inl (PyExn BaseException_class ''SystemExit'') \<rparr>) 7)
       = Propagates (PyExn BaseException_class ''SystemExit'')"
  by (simp add: example_defs can_do_new_file_def py_and_def py_or_def
      execute_def try_body_defs)

text \<open>
  C9, amended. In every run in which neither an orchestration step nor the comparison
  of line 99 raises an exception outside the \<^verbatim>\<open>Exception\<close> hierarchy,
  \<^verbatim>\<open>execute\<close> ends with a boolean result and no exception reaches the caller,
  whatever \<^verbatim>\<open>log_metric\<close> does.
\<close>

theorem execute_returns_boolean:
  assumes "\<forall>e. step_exception a w = Some e \<or> comparison_exception a w = Some e
             \<longrightarrow> isinstance_Exception e"
  shows "\<exists>b. snd (execute a w p) = Returns b"
proof (cases "truthy (can_do_new_file (environment a))")
  case False
  then show ?thesis by (auto simp: execute_def)
next
  case valid: True
  have handled: "\<exists>b. snd (execute a w p) = Returns b"
    if tb: "execute_try_body a w = (evs, Raised e')" and ex: "isinstance_Exception e'"
    for evs e'
  proof -
    from report_error_form [of e' a p] obtain evs' where
      "execute_report_error a p e' = (evs', Returns False)" by auto
    with valid tb ex show ?thesis by (auto simp: execute_def)
  qed
  show ?thesis
  proof (cases "step_exception a w")
    case (Some e)
    with assms have "isinstance_Exception e" by simp
    with try_body_raised [OF Some]
    obtain evs e' where "execute_try_body a w = (evs, Raised e')" "isinstance_Exception e'"
      by auto
    then show ?thesis by (rule handled)
  next
    case no_step: None
    show ?thesis
    proof (cases "comparison_exception a w")
      case (Some e)
      with assms have "isinstance_Exception e" by simp
      with try_body_comparison_raised [OF Some]
      obtain evs where "execute_try_body a w = (evs, Raised e)" "isinstance_Exception e"
        by auto
      then show ?thesis by (rule handled)
    next
      case None
      from try_body_not_raised [OF no_step None] valid show ?thesis
        by (auto simp: execute_def)
    qed
  qed
qed

theorem execute_returns_boolean_witness:
  "step_exception shot_action
          (calm_world \<lparr> log_metric := Some (PyExn BaseException_class ''SystemExit'') \<rparr>) = None
   \<and> comparison_exception shot_action
          (calm_world \<lparr> log_metric := Some (PyExn BaseException_class ''SystemExit'') \<rparr>) = None
   \<and> snd (execute shot_action
          (calm_world \<lparr> log_metric := Some (PyExn BaseException_class ''SystemExit'') \<rparr>) 7)
       = Returns True
   \<and> step_exception shot_action
          (calm_world \<lparr> context_eq := Inl (PyExn Exception_class ''id'') \<rparr>) = None
   \<and> comparison_exception shot_action
          (calm_world \<lparr> context_eq := Inl (PyExn Exception_class ''id'') \<rparr>)
       = Some (PyExn Exception_class ''id'')
   \<and> isinstance_Exception (PyExn Exception_class ''id'')
   \<and> snd (execute shot_action
          (calm_world \<lparr> context_eq := Inl (PyExn Exception_class ''id'') \<rparr>) 7)
       = Returns False"
proof -
  let ?w = "calm_world \<lparr> log_metric := Some (PyExn BaseException_class ''SystemExit'') \<rparr>"
  let ?v = "calm_world \<lparr> context_eq := Inl (PyExn Exception_class ''id'') \<rparr>"
  have n: "step_exception shot_action ?w = None"
    by (simp add: example_defs step_exception_def)
  have nc: "comparison_exception shot_action ?w = None"
    by (simp add: example_defs comparison_exception_def)
  from n nc have h: "\<forall>e. step_exception shot_action ?w = Some e
      \<or> comparison_exception shot_action ?w = Some e \<longrightarrow> isinstance_Exception e"
    by simp
  have t: "snd (execute shot_action ?w 7) \<noteq> Returns False"
    by (simp add: example_defs can_do_new_file_def py_and_def py_or_def execute_def
        try_body_defs)
  have s: "step_exception shot_action ?v = None"
    by (simp add: example_defs step_exception_def)
  have sc: "comparison_exception shot_action ?v = Some (PyExn Exception_class ''id'')"
    by (simp add: example_defs comparison_exception_def)
  from s sc have k: "\<forall>e. step_exception shot_action ?v = Some e
      \<or> comparison_exception shot_action ?v = Some e \<longrightarrow> isinstance_Exception e"
    by simp
  have u: "snd (execute shot_action ?v 7) \<noteq> Returns True"
    by (simp add: example_defs can_do_new_file_def py_and_def py_or_def execute_def
        try_body_defs execute_report_error_def split: list.split)
  from execute_returns_boolean [OF h, of 7] execute_returns_boolean [OF k, of 7] t u n nc s sc
  show ?thesis by auto
qed

end
